theory Spec2Isabelle
  imports Main "HOL-Library.Char_ord" "HOL-Library.List_Lexorder"
begin

section \<open>JavaScript values\<close>

text \<open>
  The three modules (\<^verbatim>\<open>js/patients.js\<close>, \<^verbatim>\<open>js/wounds.js\<close>, \<^verbatim>\<open>js/treatments.js\<close>)
  take and return plain JavaScript values. A number is \<open>NaN\<close> or an integer: this
  covers every result of \<^verbatim>\<open>parseInt\<close> and is exact for magnitudes below \<open>2 ^ 53\<close>
  (beyond that JavaScript rounds to a double, and fractions and negative zero are left out).
  Strings are byte strings. An object is the list of its own properties, in order.
\<close>

datatype jsnum = NaN | Fin int

datatype jsval =
    Undefined
  | Null
  | Bool bool
  | Num jsnum
  | Str string
  | Arr "jsval list"
  | Obj "(string \<times> jsval) list"

datatype js_error = TypeError

text \<open>\<^verbatim>\<open>if (v)\<close>, \<^verbatim>\<open>!v\<close> and \<^verbatim>\<open>v || d\<close> test whether a value is truthy.\<close>

fun truthy :: "jsval \<Rightarrow> bool" where
  "truthy Undefined = False"
| "truthy Null = False"
| "truthy (Bool b) = b"
| "truthy (Num NaN) = False"
| "truthy (Num (Fin n)) = (n \<noteq> 0)"
| "truthy (Str s) = (s \<noteq> [])"
| "truthy (Arr xs) = True"
| "truthy (Obj fs) = True"

definition js_or :: "jsval \<Rightarrow> jsval \<Rightarrow> jsval" where
  "js_or a b = (if truthy a then a else b)"

fun nullish :: "jsval \<Rightarrow> bool" where
  "nullish Undefined = True"
| "nullish Null = True"
| "nullish v = False"

text \<open>
  \<^verbatim>\<open>v.k\<close> for one of the property names the modules read (none of them is defined on
  a prototype): the own property of an object, \<^verbatim>\<open>undefined\<close> where it is missing or
  where \<open>v\<close> is a primitive or an array, and a \<^verbatim>\<open>TypeError\<close> on \<^verbatim>\<open>null\<close> and
  \<^verbatim>\<open>undefined\<close>.
\<close>

fun js_prop :: "jsval \<Rightarrow> string \<Rightarrow> jsval" where
  "js_prop (Obj fs) k = (case map_of fs k of Some v \<Rightarrow> v | None \<Rightarrow> Undefined)"
| "js_prop v k = Undefined"

definition get_prop :: "jsval \<Rightarrow> string \<Rightarrow> js_error + jsval" where
  "get_prop v k = (if nullish v then Inl TypeError else Inr (js_prop v k))"

subsection \<open>\<^verbatim>\<open>parseInt(v, 10)\<close>\<close>

definition digit_char :: "nat \<Rightarrow> char" where
  "digit_char d = ''0123456789'' ! (d mod 10)"

fun digits_fuel :: "nat \<Rightarrow> nat \<Rightarrow> string" where
  "digits_fuel 0 n = []"
| "digits_fuel (Suc k) n =
     (if n < 10 then [digit_char n] else digits_fuel k (n div 10) @ [digit_char n])"

text \<open>The decimal digits of a natural number; \<open>n\<close> has at most \<open>n + 1\<close> digits.\<close>

definition digits :: "nat \<Rightarrow> string" where
  "digits n = digits_fuel (Suc n) n"

definition int_to_string :: "int \<Rightarrow> string" where
  "int_to_string n = (if n < 0 then CHR ''-'' # digits (nat (- n)) else digits (nat n))"

fun join_comma :: "string list \<Rightarrow> string" where
  "join_comma [] = []"
| "join_comma [s] = s"
| "join_comma (s # t # ss) = s @ '','' @ join_comma (t # ss)"

text \<open>
  \<^verbatim>\<open>ToString\<close>: an array joins its elements with commas, \<^verbatim>\<open>null\<close> and
  \<^verbatim>\<open>undefined\<close> elements giving the empty string; a plain object gives
  \<^verbatim>\<open>[object Object]\<close>.
\<close>

fun to_string :: "jsval \<Rightarrow> string" where
  "to_string Undefined = ''undefined''"
| "to_string Null = ''null''"
| "to_string (Bool b) = (if b then ''true'' else ''false'')"
| "to_string (Num NaN) = ''NaN''"
| "to_string (Num (Fin n)) = int_to_string n"
| "to_string (Str s) = s"
| "to_string (Arr xs) = join_comma (map (\<lambda>x. if nullish x then [] else to_string x) xs)"
| "to_string (Obj fs) = ''[object Object]''"

definition is_ws :: "char \<Rightarrow> bool" where
  "is_ws c = (c \<in> set [CHR '' '', CHR 0x09, CHR 0x0A, CHR 0x0B, CHR 0x0C, CHR 0x0D])"

definition digit_val :: "char \<Rightarrow> nat option" where
  "digit_val c = map_of [(CHR ''0'', 0), (CHR ''1'', 1), (CHR ''2'', 2), (CHR ''3'', 3),
     (CHR ''4'', 4), (CHR ''5'', 5), (CHR ''6'', 6), (CHR ''7'', 7), (CHR ''8'', 8),
     (CHR ''9'', 9)] c"

definition is_digit :: "char \<Rightarrow> bool" where
  "is_digit c = (digit_val c \<noteq> None)"

definition digits_value :: "string \<Rightarrow> nat" where
  "digits_value z = foldl (\<lambda>a c. 10 * a + (case digit_val c of Some d \<Rightarrow> d | None \<Rightarrow> 0)) 0 z"

text \<open>
  \<^verbatim>\<open>parseInt(v, 10)\<close>: the argument as a string, leading white space dropped (the
  ASCII white space characters, strings being bytes here), an optional sign, then the
  longest prefix of decimal digits; \<open>NaN\<close> when there is no digit.
\<close>

definition strip_sign :: "string \<Rightarrow> bool \<times> string" where
  "strip_sign s =
     (case s of
        [] \<Rightarrow> (False, s)
      | c # t \<Rightarrow> if c = CHR ''-'' then (True, t) else if c = CHR ''+'' then (False, t)
                 else (False, s))"

definition parseInt10 :: "jsval \<Rightarrow> jsnum" where
  "parseInt10 v =
     (let (neg, s) = strip_sign (dropWhile is_ws (to_string v));
          z = takeWhile is_digit s
      in if z = [] then NaN
         else Fin (if neg then - int (digits_value z) else int (digits_value z)))"


text \<open>A row echoes a record when it carries each of the record's own properties.\<close>

definition echoes :: "jsval \<Rightarrow> jsval \<Rightarrow> bool" where
  "echoes p row =
     (case p of
        Obj fs \<Rightarrow> list_all (\<lambda>k. js_prop row k = js_prop p k) (map fst fs)
      | _ \<Rightarrow> False)"

subsection \<open>\<^verbatim>\<open>new Date().toISOString()\<close>\<close>

text \<open>
  The date of a day number (days since 1970-01-01) in the proleptic Gregorian calendar,
  as \<open>(year, month, day)\<close>.
\<close>

definition civil_from_days :: "int \<Rightarrow> int \<times> int \<times> int" where
  "civil_from_days z0 =
     (let z = z0 + 719468;
          era = z div 146097;
          doe = z - era * 146097;
          yoe = (doe - doe div 1460 + doe div 36524 - doe div 146096) div 365;
          y = yoe + era * 400;
          doy = doe - (365 * yoe + yoe div 4 - yoe div 100);
          mp = (5 * doy + 2) div 153;
          d = doy - (153 * mp + 2) div 5 + 1;
          m = (if mp < 10 then mp + 3 else mp - 9)
      in (if m \<le> 2 then y + 1 else y, m, d))"

fun pad :: "nat \<Rightarrow> nat \<Rightarrow> string" where
  "pad 0 n = []"
| "pad (Suc k) n = pad k (n div 10) @ [digit_char n]"

text \<open>
  \<^verbatim>\<open>toISOString\<close> of the date whose time value is \<open>t\<close> milliseconds since the epoch:
  \<^verbatim>\<open>YYYY-MM-DDTHH:mm:ss.sssZ\<close>, the year with a sign and six digits outside 0..9999.
\<close>

definition toISOString :: "int \<Rightarrow> string" where
  "toISOString t =
     (let ms = t mod 86400000;
          (y, m, d) = civil_from_days (t div 86400000);
          year = (if 0 \<le> y \<and> y \<le> 9999 then pad 4 (nat y)
                  else (if y < 0 then ''-'' else ''+'') @ pad 6 (nat \<bar>y\<bar>))
      in year @ ''-'' @ pad 2 (nat m) @ ''-'' @ pad 2 (nat d) @ ''T''
         @ pad 2 (nat (ms div 3600000)) @ '':'' @ pad 2 (nat (ms div 60000 mod 60)) @ '':''
         @ pad 2 (nat (ms div 1000 mod 60)) @ ''.'' @ pad 3 (nat (ms mod 1000)) @ ''Z'')"

section \<open>The collaborators: data-access client, console, notification sink\<close>

text \<open>
  A request is the chain of calls made on \<^verbatim>\<open>window.CURA360.supabase\<close>;
  \<^verbatim>\<open>.select()\<close> is \<^verbatim>\<open>.select('*')\<close> (the client's default), and
  \<open>Order c False\<close> is \<^verbatim>\<open>.order(c, { ascending: false })\<close>. Awaiting the chain
  yields the pair \<^verbatim>\<open>{ data, error }\<close>.
\<close>

datatype call =
    From string
  | Insert jsval
  | Select string
  | Eq string jsval
  | Order string bool
  | Single

type_synonym query = "call list"

record response =
  r_data :: jsval
  r_error :: jsval

text \<open>The client is a parameter: a function of the backend's state and the request.\<close>

type_synonym 'db client = "'db \<Rightarrow> query \<Rightarrow> response \<times> 'db"

text \<open>
  Everything a call can touch: the backend's state, the clock (milliseconds since the
  epoch), and the record of what was done: the requests awaited with their responses,
  the \<^verbatim>\<open>console.error\<close> lines, and the \<^verbatim>\<open>showToast\<close> calls (message and
  optional type).
\<close>

record 'db world =
  db :: 'db
  clock :: int
  exchanges :: "(query \<times> response) list"
  console :: "(string \<times> jsval) list"
  toasts :: "(string \<times> string option) list"

definition await :: "'db client \<Rightarrow> query \<Rightarrow> 'db world \<Rightarrow> response \<times> 'db world" where
  "await sb q w =
     (case sb (db w) q of
        (res, d) \<Rightarrow> (res, w\<lparr>db := d, exchanges := exchanges w @ [(q, res)]\<rparr>))"

definition console_error :: "string \<Rightarrow> jsval \<Rightarrow> 'db world \<Rightarrow> 'db world" where
  "console_error label err w = w\<lparr>console := console w @ [(label, err)]\<rparr>"

definition showToast :: "string \<Rightarrow> string option \<Rightarrow> 'db world \<Rightarrow> 'db world" where
  "showToast msg type w = w\<lparr>toasts := toasts w @ [(msg, type)]\<rparr>"

text \<open>
  An \<^verbatim>\<open>async\<close> function settles with a value (\<open>Inr\<close>) or rejects with what was
  thrown (\<open>Inl\<close>).
\<close>

type_synonym 'db outcome = "(js_error + jsval) \<times> 'db world"

definition bind_r :: "js_error + 'a \<Rightarrow> ('a \<Rightarrow> js_error + 'b) \<Rightarrow> js_error + 'b" where
  "bind_r m f = (case m of Inl e \<Rightarrow> Inl e | Inr v \<Rightarrow> f v)"

section \<open>\<^verbatim>\<open>js/patients.js\<close>\<close>

text \<open>The object literal \<^verbatim>\<open>payload\<close> of \<^verbatim>\<open>create\<close>, its properties read in order.\<close>

definition patients_payload :: "jsval \<Rightarrow> jsval \<Rightarrow> js_error + jsval" where
  "patients_payload user data =
     bind_r (get_prop data ''name'') (\<lambda>name.
     bind_r (get_prop data ''age'') (\<lambda>age.
     bind_r (get_prop data ''diagnosis'') (\<lambda>diagnosis.
     bind_r (get_prop data ''comorbidities'') (\<lambda>comorbidities.
     bind_r (get_prop user ''id'') (\<lambda>uid.
     Inr (Obj [(''name'', name),
               (''age'', Num (parseInt10 age)),
               (''diagnosis'', js_or diagnosis (Str '''')),
               (''comorbidities'', js_or comorbidities (Str '''')),
               (''professional_id'', uid)]))))))"

text \<open>\<open>user\<close> is what \<^verbatim>\<open>window.CURA360.auth.getCurrentUser()\<close> returns.\<close>

definition patients_create :: "'db client \<Rightarrow> jsval \<Rightarrow> jsval \<Rightarrow> 'db world \<Rightarrow> 'db outcome" where
  "patients_create sb user data w =
     (if \<not> truthy user then (Inr Null, w)
      else case patients_payload user data of
             Inl e \<Rightarrow> (Inl e, w)
           | Inr payload \<Rightarrow>
               (case await sb [From ''patients'', Insert payload, Select ''*'', Single] w of
                  (res, w1) \<Rightarrow>
                    if truthy (r_error res)
                    then (Inr Null,
                          showToast ''Error al crear paciente.'' None
                            (console_error ''[patients] create error:'' (r_error res) w1))
                    else (Inr (r_data res),
                          showToast ''Paciente creado exitosamente.'' (Some ''success'') w1)))"

definition patients_list :: "'db client \<Rightarrow> 'db world \<Rightarrow> 'db outcome" where
  "patients_list sb w =
     (case await sb [From ''patients'', Select ''*'', Order ''created_at'' False] w of
        (res, w1) \<Rightarrow>
          if truthy (r_error res)
          then (Inr (Arr []),
                showToast ''Error al cargar pacientes.'' None
                  (console_error ''[patients] list error:'' (r_error res) w1))
          else (Inr (js_or (r_data res) (Arr [])), w1))"

definition patients_getById :: "'db client \<Rightarrow> jsval \<Rightarrow> 'db world \<Rightarrow> 'db outcome" where
  "patients_getById sb pid w =
     (case await sb [From ''patients'', Select ''*'', Eq ''id'' pid, Single] w of
        (res, w1) \<Rightarrow>
          if truthy (r_error res)
          then (Inr Null, console_error ''[patients] getById error:'' (r_error res) w1)
          else (Inr (r_data res), w1))"

section \<open>\<^verbatim>\<open>js/wounds.js\<close>\<close>

definition wounds_payload :: "jsval \<Rightarrow> jsval \<Rightarrow> js_error + jsval" where
  "wounds_payload patientId data =
     bind_r (get_prop data ''type'') (\<lambda>type.
     bind_r (get_prop data ''location'') (\<lambda>location.
     bind_r (get_prop data ''dimensions'') (\<lambda>dimensions.
     bind_r (get_prop data ''status'') (\<lambda>status.
     Inr (Obj [(''patient_id'', patientId),
               (''type'', js_or type (Str '''')),
               (''location'', js_or location (Str '''')),
               (''dimensions'', js_or dimensions (Str '''')),
               (''status'', js_or status (Str ''active''))])))))"

definition wounds_create :: "'db client \<Rightarrow> jsval \<Rightarrow> jsval \<Rightarrow> 'db world \<Rightarrow> 'db outcome" where
  "wounds_create sb patientId data w =
     (case wounds_payload patientId data of
        Inl e \<Rightarrow> (Inl e, w)
      | Inr payload \<Rightarrow>
          (case await sb [From ''wounds'', Insert payload, Select ''*'', Single] w of
             (res, w1) \<Rightarrow>
               if truthy (r_error res)
               then (Inr Null,
                     showToast ''Error al registrar herida.'' None
                       (console_error ''[wounds] create error:'' (r_error res) w1))
               else (Inr (r_data res),
                     showToast ''Herida registrada exitosamente.'' (Some ''success'') w1)))"

definition wounds_listByPatient :: "'db client \<Rightarrow> jsval \<Rightarrow> 'db world \<Rightarrow> 'db outcome" where
  "wounds_listByPatient sb patientId w =
     (case await sb [From ''wounds'', Select ''*'', Eq ''patient_id'' patientId,
                     Order ''created_at'' False] w of
        (res, w1) \<Rightarrow>
          if truthy (r_error res)
          then (Inr (Arr []), console_error ''[wounds] listByPatient error:'' (r_error res) w1)
          else (Inr (js_or (r_data res) (Arr [])), w1))"

definition wounds_getById :: "'db client \<Rightarrow> jsval \<Rightarrow> 'db world \<Rightarrow> 'db outcome" where
  "wounds_getById sb woundId w =
     (case await sb [From ''wounds'', Select ''*'', Eq ''id'' woundId, Single] w of
        (res, w1) \<Rightarrow>
          if truthy (r_error res)
          then (Inr Null, console_error ''[wounds] getById error:'' (r_error res) w1)
          else (Inr (r_data res), w1))"

section \<open>\<^verbatim>\<open>js/treatments.js\<close>\<close>

text \<open>The two bytes of the letter o with an acute accent, in UTF-8.\<close>

definition o_acute :: string where
  "o_acute = [CHR 0xC3, CHR 0xB3]"

definition treatments_payload :: "jsval \<Rightarrow> jsval \<Rightarrow> int \<Rightarrow> js_error + jsval" where
  "treatments_payload woundId data now =
     bind_r (get_prop data ''technique'') (\<lambda>technique.
     bind_r (get_prop data ''supplies'') (\<lambda>supplies.
     bind_r (get_prop data ''notes'') (\<lambda>notes.
     Inr (Obj [(''wound_id'', woundId),
               (''technique'', js_or technique (Str '''')),
               (''supplies'', js_or supplies (Str '''')),
               (''notes'', js_or notes (Str '''')),
               (''created_at'', Str (toISOString now))]))))"

definition treatments_create :: "'db client \<Rightarrow> jsval \<Rightarrow> jsval \<Rightarrow> 'db world \<Rightarrow> 'db outcome" where
  "treatments_create sb woundId data w =
     (case treatments_payload woundId data (clock w) of
        Inl e \<Rightarrow> (Inl e, w)
      | Inr payload \<Rightarrow>
          (case await sb [From ''treatments'', Insert payload, Select ''*'', Single] w of
             (res, w1) \<Rightarrow>
               if truthy (r_error res)
               then (Inr Null,
                     showToast (''Error al registrar curaci'' @ o_acute @ ''n.'') None
                       (console_error ''[treatments] create error:'' (r_error res) w1))
               else (Inr (r_data res),
                     showToast (''Curaci'' @ o_acute @ ''n registrada exitosamente.'')
                       (Some ''success'') w1)))"

definition treatments_listByWound :: "'db client \<Rightarrow> jsval \<Rightarrow> 'db world \<Rightarrow> 'db outcome" where
  "treatments_listByWound sb woundId w =
     (case await sb [From ''treatments'', Select ''*'', Eq ''wound_id'' woundId,
                     Order ''created_at'' False] w of
        (res, w1) \<Rightarrow>
          if truthy (r_error res)
          then (Inr (Arr []),
                console_error ''[treatments] listByWound error:'' (r_error res) w1)
          else (Inr (js_or (r_data res) (Arr [])), w1))"

section \<open>A stub backend\<close>

text \<open>
  Modelled from the spec: the stub backend that echoes inserted rows, a test double that is
  not part of the modules. It keeps the rows of every table in insertion order. An insert
  of an object stores it under a fresh server-assigned \<open>id\<close> and answers with the stored
  row; a read answers with the rows of the table that pass the \<^verbatim>\<open>eq\<close> filter, ordered
  as asked (column values compared as strings); \<^verbatim>\<open>single()\<close> fails unless exactly one row
  is left. It serves the four request shapes the modules issue and fails on any other.
\<close>

record stub_db =
  stored :: "(string \<times> jsval) list"
  next_id :: nat

definition ts_key :: "jsval \<Rightarrow> string" where
  "ts_key v = (case v of Str s \<Rightarrow> s | _ \<Rightarrow> [])"


definition table :: "stub_db \<Rightarrow> string \<Rightarrow> jsval list" where
  "table d t = map snd (filter (\<lambda>(t', r). t' = t) (stored d))"

definition order_rows :: "string \<Rightarrow> bool \<Rightarrow> jsval list \<Rightarrow> jsval list" where
  "order_rows k asc rs =
     (if asc then sort_key (\<lambda>r. ts_key (js_prop r k)) rs
      else rev (sort_key (\<lambda>r. ts_key (js_prop r k)) rs))"

definition ok :: "jsval \<Rightarrow> response" where
  "ok v = \<lparr>r_data = v, r_error = Null\<rparr>"

definition failed :: "string \<Rightarrow> response" where
  "failed msg = \<lparr>r_data = Null, r_error = Obj [(''message'', Str msg)]\<rparr>"

definition single_row :: "jsval list \<Rightarrow> response" where
  "single_row rs = (case rs of [r] \<Rightarrow> ok r | _ \<Rightarrow> failed ''not exactly one row'')"

fun returning_single :: "call list \<Rightarrow> bool" where
  "returning_single [Select c, Single] = True"
| "returning_single q = False"

text \<open>
  Modelled from the spec: an insert followed by \<^verbatim>\<open>.select().single()\<close> stores the
  record under the next identity and answers with the stored row.
\<close>

definition stub_insert :: "stub_db \<Rightarrow> string \<Rightarrow> jsval \<Rightarrow> call list \<Rightarrow> response \<times> stub_db" where
  "stub_insert d t p q =
     (case p of
        Obj fs \<Rightarrow>
          if returning_single q
          then (let row = Obj ((''id'', Num (Fin (int (next_id d)))) # fs)
                in (ok row, d\<lparr>stored := stored d @ [(t, row)], next_id := Suc (next_id d)\<rparr>))
          else (failed ''unsupported request'', d)
      | _ \<Rightarrow> (failed ''not a row'', d))"

text \<open>
  Modelled from the spec: a read of the rows \<open>rs\<close> of a table, by the calls that follow
  \<^verbatim>\<open>.select('*')\<close>.
\<close>

fun stub_read :: "jsval list \<Rightarrow> call list \<Rightarrow> response" where
  "stub_read rs [Order k asc] = ok (Arr (order_rows k asc rs))"
| "stub_read rs [Eq k v, Single] = single_row (filter (\<lambda>r. js_prop r k = v) rs)"
| "stub_read rs [Eq k v, Order k' asc] =
     ok (Arr (order_rows k' asc (filter (\<lambda>r. js_prop r k = v) rs)))"
| "stub_read rs q = failed ''unsupported request''"

text \<open>Modelled from the spec: the stub as a data-access client.\<close>

fun stub :: "stub_db client" where
  "stub d (From t # Insert p # q) = stub_insert d t p q"
| "stub d (From t # Select c # q) = (stub_read (table d t) q, d)"
| "stub d q = (failed ''unsupported request'', d)"

text \<open>The stub's bookkeeping: every stored row carries an identity already handed out.\<close>

definition stub_inv :: "stub_db \<Rightarrow> bool" where
  "stub_inv d =
     list_all (\<lambda>(t, r). case js_prop r ''id'' of
                            Num (Fin k) \<Rightarrow> 0 \<le> k \<and> k < int (next_id d)
                          | _ \<Rightarrow> False) (stored d)"

text \<open>A backend that refuses every request, and a world in which nothing has happened yet.\<close>

definition refusing :: "unit client" where
  "refusing d q = (failed ''permission denied'', d)"


definition fresh :: "'db \<Rightarrow> 'db world" where
  "fresh d = \<lparr>db = d, clock = 0, exchanges = [], console = [], toasts = []\<rparr>"

definition empty_db :: stub_db where
  "empty_db = \<lparr>stored = [], next_id = 0\<rparr>"

text \<open>
  A sample state of the stub for the examples: three wounds of two patients and two
  treatments of the first wound.
\<close>

definition wound_a :: jsval where
  "wound_a = Obj [(''id'', Num (Fin 0)), (''patient_id'', Str ''p1''),
                  (''created_at'', Str ''2024-01-05T10:00:00Z'')]"

definition wound_b :: jsval where
  "wound_b = Obj [(''id'', Num (Fin 1)), (''patient_id'', Str ''p2''),
                  (''created_at'', Str ''2024-02-01T09:00:00Z'')]"

definition wound_c :: jsval where
  "wound_c = Obj [(''id'', Num (Fin 2)), (''patient_id'', Str ''p1''),
                  (''created_at'', Str ''2024-03-09T08:30:00Z'')]"

definition treatment_a :: jsval where
  "treatment_a = Obj [(''id'', Num (Fin 3)), (''wound_id'', Num (Fin 0)),
                      (''technique'', Str ''debridement''),
                      (''created_at'', Str ''2024-01-05T10:15:00.000Z'')]"

definition treatment_b :: jsval where
  "treatment_b = Obj [(''id'', Num (Fin 4)), (''wound_id'', Num (Fin 0)),
                      (''technique'', Str ''dressing''),
                      (''created_at'', Str ''2024-01-08T16:40:00.000Z'')]"

definition sample_db :: stub_db where
  "sample_db =
     \<lparr>stored = [(''wounds'', wound_a), (''wounds'', wound_b), (''treatments'', treatment_a),
                 (''wounds'', wound_c), (''treatments'', treatment_b)],
      next_id = 5\<rparr>"

section \<open>The contract of a read\<close>




section \<open>The public API\<close>

text \<open>
  \<^verbatim>\<open>window.CURA360.patients = { create, list, getById }\<close>,
  \<^verbatim>\<open>window.CURA360.wounds = { create, listByPatient, getById }\<close> and
  \<^verbatim>\<open>window.CURA360.treatments = { create, listByWound }\<close>: the eight operations, with
  their arguments.
\<close>

datatype api_call =
    PatientsCreate jsval
  | PatientsList
  | PatientsGetById jsval
  | WoundsCreate jsval jsval
  | WoundsListByPatient jsval
  | WoundsGetById jsval
  | TreatmentsCreate jsval jsval
  | TreatmentsListByWound jsval

fun invoke :: "'db client \<Rightarrow> jsval \<Rightarrow> api_call \<Rightarrow> 'db world \<Rightarrow> 'db outcome" where
  "invoke sb user (PatientsCreate data) w = patients_create sb user data w"
| "invoke sb user PatientsList w = patients_list sb w"
| "invoke sb user (PatientsGetById pid) w = patients_getById sb pid w"
| "invoke sb user (WoundsCreate patientId data) w = wounds_create sb patientId data w"
| "invoke sb user (WoundsListByPatient patientId) w = wounds_listByPatient sb patientId w"
| "invoke sb user (WoundsGetById woundId) w = wounds_getById sb woundId w"
| "invoke sb user (TreatmentsCreate woundId data) w = treatments_create sb woundId data w"
| "invoke sb user (TreatmentsListByWound woundId) w = treatments_listByWound sb woundId w"

fun is_create :: "api_call \<Rightarrow> bool" where
  "is_create (PatientsCreate data) = True"
| "is_create (WoundsCreate patientId data) = True"
| "is_create (TreatmentsCreate woundId data) = True"
| "is_create c = False"

fun is_list :: "api_call \<Rightarrow> bool" where
  "is_list PatientsList = True"
| "is_list (WoundsListByPatient patientId) = True"
| "is_list (TreatmentsListByWound woundId) = True"
| "is_list c = False"

text \<open>What an operation hands back when it did not succeed.\<close>

definition empty_result :: "api_call \<Rightarrow> jsval" where
  "empty_result c = (if is_list c then Arr [] else Null)"

text \<open>The operation context of a log line: the store and the operation.\<close>

fun context_label :: "api_call \<Rightarrow> string" where
  "context_label (PatientsCreate data) = ''[patients] create error:''"
| "context_label PatientsList = ''[patients] list error:''"
| "context_label (PatientsGetById pid) = ''[patients] getById error:''"
| "context_label (WoundsCreate patientId data) = ''[wounds] create error:''"
| "context_label (WoundsListByPatient patientId) = ''[wounds] listByPatient error:''"
| "context_label (WoundsGetById woundId) = ''[wounds] getById error:''"
| "context_label (TreatmentsCreate woundId data) = ''[treatments] create error:''"
| "context_label (TreatmentsListByWound woundId) = ''[treatments] listByWound error:''"

text \<open>The operations that tell the user of a failure, with the message they show.\<close>

fun failure_toast :: "api_call \<Rightarrow> string option" where
  "failure_toast (PatientsCreate data) = Some ''Error al crear paciente.''"
| "failure_toast PatientsList = Some ''Error al cargar pacientes.''"
| "failure_toast (WoundsCreate patientId data) = Some ''Error al registrar herida.''"
| "failure_toast (TreatmentsCreate woundId data) =
     Some (''Error al registrar curaci'' @ o_acute @ ''n.'')"
| "failure_toast c = None"

section \<open>Basic facts\<close>

lemma truthy_not_nullish: "truthy v \<Longrightarrow> \<not> nullish v"
  by (cases v) simp_all

lemma nullish_iff: "nullish v \<longleftrightarrow> v = Null \<or> v = Undefined"
  by (cases v) auto

lemma patients_payload_object:
  "\<not> nullish user \<Longrightarrow> \<not> nullish data \<Longrightarrow>
   patients_payload user data =
     Inr (Obj [(''name'', js_prop data ''name''),
               (''age'', Num (parseInt10 (js_prop data ''age''))),
               (''diagnosis'', js_or (js_prop data ''diagnosis'') (Str '''')),
               (''comorbidities'', js_or (js_prop data ''comorbidities'') (Str '''')),
               (''professional_id'', js_prop user ''id'')])"
  by (simp add: patients_payload_def bind_r_def get_prop_def)

lemma patients_payload_throws:
  "nullish data \<Longrightarrow> patients_payload user data = Inl TypeError"
  by (simp add: patients_payload_def bind_r_def get_prop_def)

lemma wounds_payload_object:
  "\<not> nullish data \<Longrightarrow>
   wounds_payload patientId data =
     Inr (Obj [(''patient_id'', patientId),
               (''type'', js_or (js_prop data ''type'') (Str '''')),
               (''location'', js_or (js_prop data ''location'') (Str '''')),
               (''dimensions'', js_or (js_prop data ''dimensions'') (Str '''')),
               (''status'', js_or (js_prop data ''status'') (Str ''active''))])"
  by (simp add: wounds_payload_def bind_r_def get_prop_def)

lemma wounds_payload_throws:
  "nullish data \<Longrightarrow> wounds_payload patientId data = Inl TypeError"
  by (simp add: wounds_payload_def bind_r_def get_prop_def)

lemma treatments_payload_object:
  "\<not> nullish data \<Longrightarrow>
   treatments_payload woundId data now =
     Inr (Obj [(''wound_id'', woundId),
               (''technique'', js_or (js_prop data ''technique'') (Str '''')),
               (''supplies'', js_or (js_prop data ''supplies'') (Str '''')),
               (''notes'', js_or (js_prop data ''notes'') (Str '''')),
               (''created_at'', Str (toISOString now))])"
  by (simp add: treatments_payload_def bind_r_def get_prop_def)

lemma treatments_payload_throws:
  "nullish data \<Longrightarrow> treatments_payload woundId data now = Inl TypeError"
  by (simp add: treatments_payload_def bind_r_def get_prop_def)

section \<open>Patient creation without a session\<close>

text \<open>
  C1. When \<^verbatim>\<open>getCurrentUser()\<close> returns an absent value (\<^verbatim>\<open>null\<close> or
  \<^verbatim>\<open>undefined\<close>), \<^verbatim>\<open>patients.create\<close> settles with \<^verbatim>\<open>null\<close> for every input and
  leaves the world as it found it: no request reaches the data-access client, no toast is
  shown, and nothing is logged.
\<close>

theorem patients_create_unauthenticated:
  assumes "user = Null \<or> user = Undefined"
  shows "patients_create sb user data w = (Inr Null, w)
       \<and> exchanges (snd (patients_create sb user data w)) = exchanges w
       \<and> toasts (snd (patients_create sb user data w)) = toasts w"
  using assms by (auto simp: patients_create_def)

theorem patients_create_unauthenticated_witness:
  "patients_create refusing Undefined (Obj [(''name'', Str ''Ana''), (''age'', Str ''41'')])
     (fresh ()) = (Inr Null, fresh ())
   \<and> exchanges (snd (patients_create refusing Undefined
        (Obj [(''name'', Str ''Ana''), (''age'', Str ''41'')]) (fresh ()))) = []
   \<and> toasts (snd (patients_create refusing Undefined
        (Obj [(''name'', Str ''Ana''), (''age'', Str ''41'')]) (fresh ()))) = []"
  using patients_create_unauthenticated
    [of Undefined refusing "Obj [(''name'', Str ''Ana''), (''age'', Str ''41'')]" "fresh ()"]
  by (simp add: fresh_def)

lemma exchanges_showToast [simp]: "exchanges (showToast m t w) = exchanges w"
  by (simp add: showToast_def)

lemma exchanges_console_error [simp]: "exchanges (console_error l e w) = exchanges w"
  by (simp add: console_error_def)

lemma await_eq:
  "await sb q w =
     (fst (sb (db w) q),
      w\<lparr>db := snd (sb (db w) q), exchanges := exchanges w @ [(q, fst (sb (db w) q))]\<rparr>)"
  by (simp add: await_def split: prod.splits)

lemma patients_create_authenticated:
  assumes "truthy user" and "\<not> nullish data"
  shows "patients_create sb user data w =
     (let p = Obj [(''name'', js_prop data ''name''),
                   (''age'', Num (parseInt10 (js_prop data ''age''))),
                   (''diagnosis'', js_or (js_prop data ''diagnosis'') (Str '''')),
                   (''comorbidities'', js_or (js_prop data ''comorbidities'') (Str '''')),
                   (''professional_id'', js_prop user ''id'')];
          q = [From ''patients'', Insert p, Select ''*'', Single];
          res = fst (sb (db w) q);
          w1 = w\<lparr>db := snd (sb (db w) q), exchanges := exchanges w @ [(q, res)]\<rparr>
      in if truthy (r_error res)
         then (Inr Null,
               showToast ''Error al crear paciente.'' None
                 (console_error ''[patients] create error:'' (r_error res) w1))
         else (Inr (r_data res),
               showToast ''Paciente creado exitosamente.'' (Some ''success'') w1))"
  using assms
  by (simp add: patients_create_def patients_payload_object truthy_not_nullish await_eq Let_def)

section \<open>The record a patient is created from\<close>

text \<open>
  C2, as the claim states it, fails on the name: \<^verbatim>\<open>payload.name\<close> is \<^verbatim>\<open>data.name\<close>
  as it comes, so a patient given without a name is inserted with the name
  \<^verbatim>\<open>undefined\<close>, not the empty string.
\<close>

theorem patients_create_name_counterexample:
  "patients_payload (Obj [(''id'', Str ''u1'')]) (Obj [(''age'', Str ''41'')]) =
     Inr (Obj [(''name'', Undefined), (''age'', Num (Fin 41)), (''diagnosis'', Str ''''),
               (''comorbidities'', Str ''''), (''professional_id'', Str ''u1'')])
   \<and> js_prop (Obj [(''name'', Undefined), (''age'', Num (Fin 41)), (''diagnosis'', Str ''''),
               (''comorbidities'', Str ''''), (''professional_id'', Str ''u1'')]) ''name''
       \<noteq> Str ''''"
  by code_simp

text \<open>
  C2, amended. With an authenticated caller and a fields object, \<^verbatim>\<open>patients.create\<close>
  issues one insert into \<^verbatim>\<open>patients\<close> whose record has the name as given, the age
  \<^verbatim>\<open>parseInt(data.age, 10)\<close>, diagnosis and comorbidities as given when truthy and the
  empty string when absent, and \<^verbatim>\<open>professional_id\<close> the user's \<^verbatim>\<open>id\<close>. On success
  it returns the row the backend answered with, which carries the age and the owner of the
  record whenever the backend echoes what was inserted.
\<close>

theorem patients_create_record:
  assumes "truthy user" and "\<not> nullish data"
  shows "\<exists>p res.
           exchanges (snd (patients_create sb user data w)) =
             exchanges w @ [([From ''patients'', Insert p, Select ''*'', Single], res)]
         \<and> js_prop p ''name'' = js_prop data ''name''
         \<and> js_prop p ''age'' = Num (parseInt10 (js_prop data ''age''))
         \<and> (\<forall>k \<in> {''diagnosis'', ''comorbidities''}.
               (js_prop data k = Undefined \<longrightarrow> js_prop p k = Str '''')
             \<and> (truthy (js_prop data k) \<longrightarrow> js_prop p k = js_prop data k))
         \<and> js_prop p ''professional_id'' = js_prop user ''id''
         \<and> (\<not> truthy (r_error res) \<longrightarrow>
               fst (patients_create sb user data w) = Inr (r_data res)
             \<and> (echoes p (r_data res) \<longrightarrow>
                   js_prop (r_data res) ''age'' = Num (parseInt10 (js_prop data ''age''))
                 \<and> js_prop (r_data res) ''professional_id'' = js_prop user ''id''))"
proof -
  let ?p = "Obj [(''name'', js_prop data ''name''),
                 (''age'', Num (parseInt10 (js_prop data ''age''))),
                 (''diagnosis'', js_or (js_prop data ''diagnosis'') (Str '''')),
                 (''comorbidities'', js_or (js_prop data ''comorbidities'') (Str '''')),
                 (''professional_id'', js_prop user ''id'')]"
  let ?q = "[From ''patients'', Insert ?p, Select ''*'', Single]"
  let ?res = "fst (sb (db w) ?q)"
  have run: "exchanges (snd (patients_create sb user data w)) = exchanges w @ [(?q, ?res)]"
    by (simp add: patients_create_authenticated [OF assms] Let_def)
  have fields: "js_prop ?p ''name'' = js_prop data ''name''"
    "js_prop ?p ''age'' = Num (parseInt10 (js_prop data ''age''))"
    "js_prop ?p ''professional_id'' = js_prop user ''id''"
    by simp_all
  have defaults: "\<forall>k \<in> {''diagnosis'', ''comorbidities''}.
               (js_prop data k = Undefined \<longrightarrow> js_prop ?p k = Str '''')
             \<and> (truthy (js_prop data k) \<longrightarrow> js_prop ?p k = js_prop data k)"
    by (simp add: js_or_def)
  have ok: "\<not> truthy (r_error ?res) \<longrightarrow>
               fst (patients_create sb user data w) = Inr (r_data ?res)"
    by (simp add: patients_create_authenticated [OF assms] Let_def)
  have echo: "echoes ?p (r_data ?res) \<longrightarrow>
                   js_prop (r_data ?res) ''age'' = Num (parseInt10 (js_prop data ''age''))
                 \<and> js_prop (r_data ?res) ''professional_id'' = js_prop user ''id''"
    by (simp add: echoes_def)
  from run fields defaults ok echo show ?thesis by blast
qed

theorem patients_create_record_witness:
  "truthy (Obj [(''id'', Str ''u1'')])
   \<and> \<not> nullish (Obj [(''name'', Str ''Ana''), (''age'', Str ''41'')])
   \<and> (\<exists>p res.
         exchanges (snd (patients_create stub (Obj [(''id'', Str ''u1'')])
             (Obj [(''name'', Str ''Ana''), (''age'', Str ''41'')]) (fresh empty_db))) =
           exchanges (fresh empty_db) @ [([From ''patients'', Insert p, Select ''*'', Single], res)]
       \<and> js_prop p ''name'' = Str ''Ana''
       \<and> js_prop p ''age'' = Num (Fin 41)
       \<and> js_prop p ''diagnosis'' = Str ''''
       \<and> js_prop p ''comorbidities'' = Str ''''
       \<and> js_prop p ''professional_id'' = Str ''u1''
       \<and> fst (patients_create stub (Obj [(''id'', Str ''u1'')])
             (Obj [(''name'', Str ''Ana''), (''age'', Str ''41'')]) (fresh empty_db)) =
           Inr (r_data res)
       \<and> js_prop (r_data res) ''age'' = Num (Fin 41)
       \<and> js_prop (r_data res) ''professional_id'' = Str ''u1'')"
proof -
  let ?u = "Obj [(''id'', Str ''u1'')]"
  let ?d = "Obj [(''name'', Str ''Ana''), (''age'', Str ''41'')]"
  have h1: "truthy ?u" by simp
  have h2: "\<not> nullish ?d" by simp
  have age: "parseInt10 (Str ''41'') = Fin 41" by code_simp
  from patients_create_record [OF h1 h2, of stub "fresh empty_db"]
  obtain p res where
    run: "exchanges (snd (patients_create stub ?u ?d (fresh empty_db))) =
             exchanges (fresh empty_db) @ [([From ''patients'', Insert p, Select ''*'', Single], res)]"
    and name: "js_prop p ''name'' = js_prop ?d ''name''"
    and ag: "js_prop p ''age'' = Num (parseInt10 (js_prop ?d ''age''))"
    and dflt: "\<forall>k \<in> {''diagnosis'', ''comorbidities''}.
               (js_prop ?d k = Undefined \<longrightarrow> js_prop p k = Str '''')
             \<and> (truthy (js_prop ?d k) \<longrightarrow> js_prop p k = js_prop ?d k)"
    and owner: "js_prop p ''professional_id'' = js_prop ?u ''id''"
    and ok: "\<not> truthy (r_error res) \<longrightarrow>
               fst (patients_create stub ?u ?d (fresh empty_db)) = Inr (r_data res)
             \<and> (echoes p (r_data res) \<longrightarrow>
                   js_prop (r_data res) ''age'' = Num (parseInt10 (js_prop ?d ''age''))
                 \<and> js_prop (r_data res) ''professional_id'' = js_prop ?u ''id'')"
    by blast
  have full: "exchanges (snd (patients_create stub ?u ?d (fresh empty_db))) =
     [([From ''patients'',
        Insert (Obj [(''name'', Str ''Ana''), (''age'', Num (Fin 41)), (''diagnosis'', Str ''''),
                     (''comorbidities'', Str ''''), (''professional_id'', Str ''u1'')]),
        Select ''*'', Single],
       ok (Obj [(''id'', Num (Fin 0)), (''name'', Str ''Ana''), (''age'', Num (Fin 41)),
                (''diagnosis'', Str ''''), (''comorbidities'', Str ''''),
                (''professional_id'', Str ''u1'')]))]"
    by (simp add: patients_create_authenticated [OF h1 h2] Let_def age js_or_def fresh_def
        empty_db_def stub_insert_def)
  from run full have p: "p = Obj [(''name'', Str ''Ana''), (''age'', Num (Fin 41)),
       (''diagnosis'', Str ''''), (''comorbidities'', Str ''''), (''professional_id'', Str ''u1'')]"
    and res: "res = ok (Obj [(''id'', Num (Fin 0)), (''name'', Str ''Ana''), (''age'', Num (Fin 41)),
                (''diagnosis'', Str ''''), (''comorbidities'', Str ''''),
                (''professional_id'', Str ''u1'')])"
    by (simp_all add: fresh_def)
  have good: "\<not> truthy (r_error res)" by (simp add: res ok_def)
  have ech: "echoes p (r_data res)" by (simp add: p res ok_def echoes_def)
  from ok good ech run name ag dflt owner h1 h2 show ?thesis
    by (intro conjI exI [of _ p] exI [of _ res]) (simp_all add: age)
qed



section \<open>Parsing what was printed\<close>

lemma digit_val_digit_char: "digit_val (digit_char n) = Some (n mod 10)"
proof -
  have small: "m = 0 \<or> m = 1 \<or> m = 2 \<or> m = 3 \<or> m = 4 \<or> m = 5 \<or> m = 6 \<or> m = 7
      \<or> m = 8 \<or> m = 9" if "m < 10" for m :: nat
    using that by arith
  have "n mod 10 < 10" by simp
  from small [OF this] show ?thesis
    by (elim disjE) (simp_all add: digit_char_def digit_val_def)
qed

lemma is_digit_digit_char: "is_digit (digit_char n)"
  by (simp add: is_digit_def digit_val_digit_char)

lemma digits_value_snoc:
  "digits_value (z @ [c]) =
     10 * digits_value z + (case digit_val c of Some d \<Rightarrow> d | None \<Rightarrow> 0)"
  by (simp add: digits_value_def)

lemma digits_fuel_value:
  "n < 10 ^ Suc k \<Longrightarrow>
   digits_value (digits_fuel (Suc k) n) = n \<and> list_all is_digit (digits_fuel (Suc k) n)
   \<and> digits_fuel (Suc k) n \<noteq> []"
proof (induction k arbitrary: n)
  case 0
  then show ?case
    by (simp add: digits_value_def digit_val_digit_char is_digit_digit_char)
next
  case (Suc k)
  show ?case
  proof (cases "n < 10")
    case True
    then show ?thesis
      by (simp add: digits_value_def digit_val_digit_char is_digit_digit_char)
  next
    case False
    from Suc.prems have "n div 10 < 10 ^ Suc k"
      by (simp add: less_mult_imp_div_less mult.commute)
    note rest = Suc.IH [OF this]
    have step: "digits_fuel (Suc (Suc k)) n = digits_fuel (Suc k) (n div 10) @ [digit_char n]"
      using False by simp
    from rest show ?thesis
      unfolding step
      by (simp add: digits_value_snoc digit_val_digit_char is_digit_digit_char
          del: digits_fuel.simps)
  qed
qed

lemma digits_value: "digits_value (digits n) = n"
  and digits_all: "list_all is_digit (digits n)"
  and digits_nonempty: "digits n \<noteq> []"
proof -
  have "n < 2 ^ n" by (rule less_exp)
  also have "\<dots> \<le> 10 ^ n" by (rule power_mono) simp_all
  also have "\<dots> \<le> 10 ^ Suc n" by simp
  finally have "n < 10 ^ Suc n" .
  from digits_fuel_value [OF this]
  show "digits_value (digits n) = n" "list_all is_digit (digits n)" "digits n \<noteq> []"
    by (simp_all add: digits_def del: digits_fuel.simps)
qed



section \<open>No local validation of the age\<close>



lemma wounds_create_object:
  assumes "\<not> nullish data"
  shows "wounds_create sb patientId data w =
     (let p = Obj [(''patient_id'', patientId),
                   (''type'', js_or (js_prop data ''type'') (Str '''')),
                   (''location'', js_or (js_prop data ''location'') (Str '''')),
                   (''dimensions'', js_or (js_prop data ''dimensions'') (Str '''')),
                   (''status'', js_or (js_prop data ''status'') (Str ''active''))];
          q = [From ''wounds'', Insert p, Select ''*'', Single];
          res = fst (sb (db w) q);
          w1 = w\<lparr>db := snd (sb (db w) q), exchanges := exchanges w @ [(q, res)]\<rparr>
      in if truthy (r_error res)
         then (Inr Null,
               showToast ''Error al registrar herida.'' None
                 (console_error ''[wounds] create error:'' (r_error res) w1))
         else (Inr (r_data res),
               showToast ''Herida registrada exitosamente.'' (Some ''success'') w1))"
  using assms
  by (simp add: wounds_create_def wounds_payload_object await_eq Let_def)

lemma treatments_create_object:
  assumes "\<not> nullish data"
  shows "treatments_create sb woundId data w =
     (let p = Obj [(''wound_id'', woundId),
                   (''technique'', js_or (js_prop data ''technique'') (Str '''')),
                   (''supplies'', js_or (js_prop data ''supplies'') (Str '''')),
                   (''notes'', js_or (js_prop data ''notes'') (Str '''')),
                   (''created_at'', Str (toISOString (clock w)))];
          q = [From ''treatments'', Insert p, Select ''*'', Single];
          res = fst (sb (db w) q);
          w1 = w\<lparr>db := snd (sb (db w) q), exchanges := exchanges w @ [(q, res)]\<rparr>
      in if truthy (r_error res)
         then (Inr Null,
               showToast (''Error al registrar curaci'' @ o_acute @ ''n.'') None
                 (console_error ''[treatments] create error:'' (r_error res) w1))
         else (Inr (r_data res),
               showToast (''Curaci'' @ o_acute @ ''n registrada exitosamente.'')
                 (Some ''success'') w1))"
  using assms
  by (simp add: treatments_create_def treatments_payload_object await_eq Let_def)

section \<open>The record a treatment is created from\<close>



section \<open>The record a wound is created from\<close>

text \<open>
  C7, as the claim states it, fails on a supplied value that is falsy: a status supplied
  as the empty string goes out as \<^verbatim>\<open>active\<close>, not verbatim.
\<close>

theorem wounds_create_status_counterexample:
  "wounds_payload (Str ''p1'') (Obj [(''type'', Str ''burn''), (''status'', Str '''')]) =
     Inr (Obj [(''patient_id'', Str ''p1''), (''type'', Str ''burn''), (''location'', Str ''''),
               (''dimensions'', Str ''''), (''status'', Str ''active'')])
   \<and> js_prop (Obj [(''type'', Str ''burn''), (''status'', Str '''')]) ''status'' = Str ''''
   \<and> js_prop (Obj [(''patient_id'', Str ''p1''), (''type'', Str ''burn''), (''location'', Str ''''),
               (''dimensions'', Str ''''), (''status'', Str ''active'')]) ''status''
       \<noteq> js_prop (Obj [(''type'', Str ''burn''), (''status'', Str '''')]) ''status''"
  by code_simp

text \<open>
  C7, amended. Given a fields object, \<^verbatim>\<open>wounds.create\<close> issues one insert into
  \<^verbatim>\<open>wounds\<close> whose record binds \<^verbatim>\<open>patient_id\<close> to the patient given; a status that
  is absent or falsy (the empty string included) becomes \<^verbatim>\<open>active\<close>; type, location and
  dimensions become the empty string when absent; a supplied value that is truthy (every
  non-empty string) appears verbatim, and for type, location and dimensions so does every
  string.
\<close>

theorem wounds_create_record:
  assumes "\<not> nullish data"
  shows "\<exists>p res.
           exchanges (snd (wounds_create sb patientId data w)) =
             exchanges w @ [([From ''wounds'', Insert p, Select ''*'', Single], res)]
         \<and> js_prop p ''patient_id'' = patientId
         \<and> (\<not> truthy (js_prop data ''status'') \<longrightarrow> js_prop p ''status'' = Str ''active'')
         \<and> (\<forall>k \<in> {''type'', ''location'', ''dimensions''}.
               (js_prop data k = Undefined \<longrightarrow> js_prop p k = Str '''')
             \<and> (\<forall>s. js_prop data k = Str s \<longrightarrow> js_prop p k = Str s))
         \<and> (\<forall>k \<in> {''type'', ''location'', ''dimensions'', ''status''}.
               truthy (js_prop data k) \<longrightarrow> js_prop p k = js_prop data k)"
proof -
  let ?p = "Obj [(''patient_id'', patientId),
                 (''type'', js_or (js_prop data ''type'') (Str '''')),
                 (''location'', js_or (js_prop data ''location'') (Str '''')),
                 (''dimensions'', js_or (js_prop data ''dimensions'') (Str '''')),
                 (''status'', js_or (js_prop data ''status'') (Str ''active''))]"
  let ?q = "[From ''wounds'', Insert ?p, Select ''*'', Single]"
  have run: "exchanges (snd (wounds_create sb patientId data w)) =
      exchanges w @ [(?q, fst (sb (db w) ?q))]"
    by (simp add: wounds_create_object [OF assms] Let_def)
  have owner: "js_prop ?p ''patient_id'' = patientId"
    by simp
  have status: "\<not> truthy (js_prop data ''status'') \<longrightarrow> js_prop ?p ''status'' = Str ''active''"
    by (simp add: js_or_def)
  have texts: "\<forall>k \<in> {''type'', ''location'', ''dimensions''}.
               (js_prop data k = Undefined \<longrightarrow> js_prop ?p k = Str '''')
             \<and> (\<forall>s. js_prop data k = Str s \<longrightarrow> js_prop ?p k = Str s)"
    by (simp add: js_or_def)
  have verbatim: "\<forall>k \<in> {''type'', ''location'', ''dimensions'', ''status''}.
               truthy (js_prop data k) \<longrightarrow> js_prop ?p k = js_prop data k"
    by (simp add: js_or_def)
  from run owner status texts verbatim show ?thesis by blast
qed

theorem wounds_create_record_witness:
  "\<not> nullish (Obj [(''type'', Str ''pressure ulcer''), (''location'', Str ''heel''),
                   (''dimensions'', Str ''2x3cm'')])
   \<and> (\<exists>p res.
         exchanges (snd (wounds_create stub (Str ''p1'')
             (Obj [(''type'', Str ''pressure ulcer''), (''location'', Str ''heel''),
                   (''dimensions'', Str ''2x3cm'')]) (fresh empty_db))) =
           [([From ''wounds'', Insert p, Select ''*'', Single], res)]
       \<and> js_prop p ''patient_id'' = Str ''p1''
       \<and> js_prop p ''status'' = Str ''active''
       \<and> js_prop p ''type'' = Str ''pressure ulcer''
       \<and> js_prop p ''location'' = Str ''heel''
       \<and> js_prop p ''dimensions'' = Str ''2x3cm'')"
proof -
  let ?d = "Obj [(''type'', Str ''pressure ulcer''), (''location'', Str ''heel''),
                   (''dimensions'', Str ''2x3cm'')]"
  have h: "\<not> nullish ?d" by simp
  from wounds_create_record [OF h, of stub "Str ''p1''" "fresh empty_db"]
  obtain p res where
    run: "exchanges (snd (wounds_create stub (Str ''p1'') ?d (fresh empty_db))) =
             exchanges (fresh empty_db) @ [([From ''wounds'', Insert p, Select ''*'', Single], res)]"
    and owner: "js_prop p ''patient_id'' = Str ''p1''"
    and status: "\<not> truthy (js_prop ?d ''status'') \<longrightarrow> js_prop p ''status'' = Str ''active''"
    and verbatim: "\<forall>k \<in> {''type'', ''location'', ''dimensions'', ''status''}.
               truthy (js_prop ?d k) \<longrightarrow> js_prop p k = js_prop ?d k"
    by (elim exE conjE) (rule that)
  from status have "js_prop p ''status'' = Str ''active''" by simp
  moreover from verbatim have "js_prop p ''type'' = Str ''pressure ulcer''"
    "js_prop p ''location'' = Str ''heel''" "js_prop p ''dimensions'' = Str ''2x3cm''"
    by simp_all
  ultimately show ?thesis using run owner h
    by (intro conjI exI [of _ p] exI [of _ res]) (simp_all add: fresh_def)
qed

lemma console_showToast [simp]: "console (showToast m t w) = console w"
  by (simp add: showToast_def)

lemma console_console_error [simp]: "console (console_error l e w) = console w @ [(l, e)]"
  by (simp add: console_error_def)

lemma toasts_showToast [simp]: "toasts (showToast m t w) = toasts w @ [(m, t)]"
  by (simp add: showToast_def)

lemma toasts_console_error [simp]: "toasts (console_error l e w) = toasts w"
  by (simp add: console_error_def)

text \<open>What each operation does once the request it awaited came back with an error.\<close>

lemma patients_create_on_error:
  assumes run: "patients_create sb user data w = (result, w')"
    and ex: "exchanges w' = exchanges w @ [(q, res)]"
    and err: "truthy (r_error res)"
  shows "result = Inr Null
       \<and> console w' = console w @ [(''[patients] create error:'', r_error res)]
       \<and> toasts w' = toasts w @ [(''Error al crear paciente.'', None)]"
proof (cases "truthy user \<and> \<not> nullish data")
  case True
  then have u: "truthy user" and d: "\<not> nullish data" by simp_all
  show ?thesis
    using run ex err
    by (auto simp: patients_create_authenticated [OF u d] Let_def split: if_splits)
next
  case False
  then have "w' = w"
    using run
    by (auto simp: patients_create_def patients_payload_throws split: if_splits)
  with ex show ?thesis by simp
qed

lemma wounds_create_on_error:
  assumes run: "wounds_create sb patientId data w = (result, w')"
    and ex: "exchanges w' = exchanges w @ [(q, res)]"
    and err: "truthy (r_error res)"
  shows "result = Inr Null
       \<and> console w' = console w @ [(''[wounds] create error:'', r_error res)]
       \<and> toasts w' = toasts w @ [(''Error al registrar herida.'', None)]"
proof (cases "nullish data")
  case False
  show ?thesis
    using run ex err
    by (auto simp: wounds_create_object [OF False] Let_def split: if_splits)
next
  case True
  then have "w' = w"
    using run by (simp add: wounds_create_def wounds_payload_throws)
  with ex show ?thesis by simp
qed

lemma treatments_create_on_error:
  assumes run: "treatments_create sb woundId data w = (result, w')"
    and ex: "exchanges w' = exchanges w @ [(q, res)]"
    and err: "truthy (r_error res)"
  shows "result = Inr Null
       \<and> console w' = console w @ [(''[treatments] create error:'', r_error res)]
       \<and> toasts w' = toasts w @ [(''Error al registrar curaci'' @ o_acute @ ''n.'', None)]"
proof (cases "nullish data")
  case False
  show ?thesis
    using run ex err
    by (auto simp: treatments_create_object [OF False] Let_def split: if_splits)
next
  case True
  then have "w' = w"
    using run by (simp add: treatments_create_def treatments_payload_throws)
  with ex show ?thesis by simp
qed

lemma patients_list_on_error:
  assumes run: "patients_list sb w = (result, w')"
    and ex: "exchanges w' = exchanges w @ [(q, res)]"
    and err: "truthy (r_error res)"
  shows "result = Inr (Arr [])
       \<and> console w' = console w @ [(''[patients] list error:'', r_error res)]
       \<and> toasts w' = toasts w @ [(''Error al cargar pacientes.'', None)]"
  using run ex err
  by (auto simp: patients_list_def await_eq split: if_splits)

lemma patients_getById_on_error:
  assumes run: "patients_getById sb pid w = (result, w')"
    and ex: "exchanges w' = exchanges w @ [(q, res)]"
    and err: "truthy (r_error res)"
  shows "result = Inr Null
       \<and> console w' = console w @ [(''[patients] getById error:'', r_error res)]
       \<and> toasts w' = toasts w"
  using run ex err
  by (auto simp: patients_getById_def await_eq split: if_splits)

lemma wounds_listByPatient_on_error:
  assumes run: "wounds_listByPatient sb patientId w = (result, w')"
    and ex: "exchanges w' = exchanges w @ [(q, res)]"
    and err: "truthy (r_error res)"
  shows "result = Inr (Arr [])
       \<and> console w' = console w @ [(''[wounds] listByPatient error:'', r_error res)]
       \<and> toasts w' = toasts w"
  using run ex err
  by (auto simp: wounds_listByPatient_def await_eq split: if_splits)

lemma wounds_getById_on_error:
  assumes run: "wounds_getById sb woundId w = (result, w')"
    and ex: "exchanges w' = exchanges w @ [(q, res)]"
    and err: "truthy (r_error res)"
  shows "result = Inr Null
       \<and> console w' = console w @ [(''[wounds] getById error:'', r_error res)]
       \<and> toasts w' = toasts w"
  using run ex err
  by (auto simp: wounds_getById_def await_eq split: if_splits)

lemma treatments_listByWound_on_error:
  assumes run: "treatments_listByWound sb woundId w = (result, w')"
    and ex: "exchanges w' = exchanges w @ [(q, res)]"
    and err: "truthy (r_error res)"
  shows "result = Inr (Arr [])
       \<and> console w' = console w @ [(''[treatments] listByWound error:'', r_error res)]
       \<and> toasts w' = toasts w"
  using run ex err
  by (auto simp: treatments_listByWound_def await_eq split: if_splits)

section \<open>Backend errors\<close>

text \<open>
  C3, as the claim states it, fails on the notification: \<^verbatim>\<open>patients.getById\<close> logs a
  backend error and returns \<^verbatim>\<open>null\<close>, and shows no toast.
\<close>

theorem getById_silent_counterexample:
  "patients_getById refusing (Str ''p1'') (fresh ()) =
     (Inr Null,
      \<lparr>db = (), clock = 0,
       exchanges = [([From ''patients'', Select ''*'', Eq ''id'' (Str ''p1''), Single],
                     \<lparr>r_data = Null, r_error = Obj [(''message'', Str ''permission denied'')]\<rparr>)],
       console = [(''[patients] getById error:'',
                   Obj [(''message'', Str ''permission denied'')])],
       toasts = []\<rparr>)"
  by (simp add: patients_getById_def await_eq refusing_def failed_def fresh_def
      console_error_def)

text \<open>
  C3, amended. Whenever the request an operation awaited came back with an error (a truthy
  \<^verbatim>\<open>error\<close>, as every error object is), the operation logs that error under its own
  label (store and operation) and returns its empty result: \<^verbatim>\<open>null\<close> from a create or
  a getById, the empty array from a list. The three creates and \<^verbatim>\<open>patients.list\<close> also
  show their failure message; \<^verbatim>\<open>patients.getById\<close>, \<^verbatim>\<open>wounds.getById\<close>,
  \<^verbatim>\<open>wounds.listByPatient\<close> and \<^verbatim>\<open>treatments.listByWound\<close> show none.
\<close>

theorem backend_error_handling:
  assumes "invoke sb user c w = (result, w')"
    and "exchanges w' = exchanges w @ [(q, res)]"
    and "truthy (r_error res)"
  shows "result = Inr (empty_result c)
       \<and> console w' = console w @ [(context_label c, r_error res)]
       \<and> toasts w' =
           toasts w @ (case failure_toast c of Some m \<Rightarrow> [(m, None)] | None \<Rightarrow> [])"
proof (cases c)
  case (PatientsCreate data)
  with patients_create_on_error [OF _ assms(2,3)] assms(1) show ?thesis
    by (simp add: empty_result_def)
next
  case PatientsList
  with patients_list_on_error [OF _ assms(2,3)] assms(1) show ?thesis
    by (simp add: empty_result_def)
next
  case (PatientsGetById pid)
  with patients_getById_on_error [OF _ assms(2,3)] assms(1) show ?thesis
    by (simp add: empty_result_def)
next
  case (WoundsCreate patientId data)
  with wounds_create_on_error [OF _ assms(2,3)] assms(1) show ?thesis
    by (simp add: empty_result_def)
next
  case (WoundsListByPatient patientId)
  with wounds_listByPatient_on_error [OF _ assms(2,3)] assms(1) show ?thesis
    by (simp add: empty_result_def)
next
  case (WoundsGetById woundId)
  with wounds_getById_on_error [OF _ assms(2,3)] assms(1) show ?thesis
    by (simp add: empty_result_def)
next
  case (TreatmentsCreate woundId data)
  with treatments_create_on_error [OF _ assms(2,3)] assms(1) show ?thesis
    by (simp add: empty_result_def)
next
  case (TreatmentsListByWound woundId)
  with treatments_listByWound_on_error [OF _ assms(2,3)] assms(1) show ?thesis
    by (simp add: empty_result_def)
qed

theorem backend_error_handling_witness:
  "truthy (Obj [(''message'', Str ''permission denied'')])
   \<and> invoke refusing Null (TreatmentsListByWound (Str ''w1'')) (fresh ()) =
     (Inr (Arr []),
      \<lparr>db = (), clock = 0,
       exchanges = [([From ''treatments'', Select ''*'', Eq ''wound_id'' (Str ''w1''),
                      Order ''created_at'' False],
                     \<lparr>r_data = Null, r_error = Obj [(''message'', Str ''permission denied'')]\<rparr>)],
       console = [(''[treatments] listByWound error:'',
                   Obj [(''message'', Str ''permission denied'')])],
       toasts = []\<rparr>)
   \<and> empty_result (TreatmentsListByWound (Str ''w1'')) = Arr []
   \<and> context_label (TreatmentsListByWound (Str ''w1'')) = ''[treatments] listByWound error:''
   \<and> failure_toast (TreatmentsListByWound (Str ''w1'')) = None"
proof -
  let ?q = "[From ''treatments'', Select ''*'', Eq ''wound_id'' (Str ''w1''),
             Order ''created_at'' False]"
  let ?res = "\<lparr>r_data = Null, r_error = Obj [(''message'', Str ''permission denied'')]\<rparr>"
  let ?w' = "\<lparr>db = (), clock = 0, exchanges = [(?q, ?res)],
       console = [(''[treatments] listByWound error:'',
                   Obj [(''message'', Str ''permission denied'')])],
       toasts = []\<rparr>"
  have run: "invoke refusing Null (TreatmentsListByWound (Str ''w1'')) (fresh ()) =
      (Inr (Arr []), ?w')"
    by (simp add: treatments_listByWound_def await_eq refusing_def failed_def fresh_def
        console_error_def)
  have ex: "exchanges ?w' = exchanges (fresh ()) @ [(?q, ?res)]"
    by (simp add: fresh_def)
  have err: "truthy (r_error ?res)"
    by simp
  from backend_error_handling [OF run ex err] run show ?thesis
    by (simp add: empty_result_def)
qed

text \<open>
  C4. Whenever the insert a create awaited came back with an error (a truthy
  \<^verbatim>\<open>error\<close>, as every error object is), the create settles with \<^verbatim>\<open>null\<close>: it does
  not reject. (A create rejects only on fields that are \<^verbatim>\<open>null\<close> or
  \<^verbatim>\<open>undefined\<close>, before any request is made.)
\<close>

theorem create_backend_error:
  assumes "is_create c"
    and "invoke sb user c w = (result, w')"
    and "exchanges w' = exchanges w @ [(q, res)]"
    and "truthy (r_error res)"
  shows "result = Inr Null \<and> (\<exists>t p. q = [From t, Insert p, Select ''*'', Single])"
proof -
  note err = assms(4)
  have settled: "result = Inr Null"
  proof (cases c)
    case (PatientsCreate data)
    with patients_create_on_error [OF _ assms(3) err] assms(2) show ?thesis by simp
  next
    case (WoundsCreate patientId data)
    with wounds_create_on_error [OF _ assms(3) err] assms(2) show ?thesis by simp
  next
    case (TreatmentsCreate woundId data)
    with treatments_create_on_error [OF _ assms(3) err] assms(2) show ?thesis by simp
  qed (use assms(1) in simp_all)
  have insert: "\<exists>t p. q = [From t, Insert p, Select ''*'', Single]"
  proof (cases c)
    case (PatientsCreate data)
    show ?thesis
    proof (cases "truthy user \<and> \<not> nullish data")
      case True
      then have u: "truthy user" and d: "\<not> nullish data" by simp_all
      from assms(2,3) show ?thesis
        by (auto simp: PatientsCreate patients_create_authenticated [OF u d] Let_def
            split: if_splits)
    next
      case False
      then have "w' = w"
        using assms(2)
        by (auto simp: PatientsCreate patients_create_def patients_payload_throws
            split: if_splits)
      with assms(3) show ?thesis by simp
    qed
  next
    case (WoundsCreate patientId data)
    show ?thesis
    proof (cases "nullish data")
      case False
      from assms(2,3) show ?thesis
        by (auto simp: WoundsCreate wounds_create_object [OF False] Let_def split: if_splits)
    next
      case True
      then have "w' = w"
        using assms(2) by (simp add: WoundsCreate wounds_create_def wounds_payload_throws)
      with assms(3) show ?thesis by simp
    qed
  next
    case (TreatmentsCreate woundId data)
    show ?thesis
    proof (cases "nullish data")
      case False
      from assms(2,3) show ?thesis
        by (auto simp: TreatmentsCreate treatments_create_object [OF False] Let_def
            split: if_splits)
    next
      case True
      then have "w' = w"
        using assms(2)
        by (simp add: TreatmentsCreate treatments_create_def treatments_payload_throws)
      with assms(3) show ?thesis by simp
    qed
  qed (use assms(1) in simp_all)
  from settled insert show ?thesis ..
qed

theorem create_backend_error_witness:
  "is_create (WoundsCreate (Str ''p1'') (Obj [(''type'', Str ''burn'')]))
   \<and> invoke refusing Null (WoundsCreate (Str ''p1'') (Obj [(''type'', Str ''burn'')]))
       (fresh ()) =
     (Inr Null,
      \<lparr>db = (), clock = 0,
       exchanges = [([From ''wounds'',
                      Insert (Obj [(''patient_id'', Str ''p1''), (''type'', Str ''burn''),
                                   (''location'', Str ''''), (''dimensions'', Str ''''),
                                   (''status'', Str ''active'')]),
                      Select ''*'', Single],
                     \<lparr>r_data = Null, r_error = Obj [(''message'', Str ''permission denied'')]\<rparr>)],
       console = [(''[wounds] create error:'', Obj [(''message'', Str ''permission denied'')])],
       toasts = [(''Error al registrar herida.'', None)]\<rparr>)"
proof -
  let ?c = "WoundsCreate (Str ''p1'') (Obj [(''type'', Str ''burn'')])"
  let ?q = "[From ''wounds'',
             Insert (Obj [(''patient_id'', Str ''p1''), (''type'', Str ''burn''),
                          (''location'', Str ''''), (''dimensions'', Str ''''),
                          (''status'', Str ''active'')]),
             Select ''*'', Single]"
  let ?res = "\<lparr>r_data = Null, r_error = Obj [(''message'', Str ''permission denied'')]\<rparr>"
  let ?w' = "\<lparr>db = (), clock = 0, exchanges = [(?q, ?res)],
       console = [(''[wounds] create error:'', Obj [(''message'', Str ''permission denied'')])],
       toasts = [(''Error al registrar herida.'', None)]\<rparr>"
  have d: "\<not> nullish (Obj [(''type'', Str ''burn'')])" by simp
  have h1: "is_create ?c" by simp
  have run: "invoke refusing Null ?c (fresh ()) = (Inr Null, ?w')"
    by (simp add: wounds_create_object [OF d] Let_def js_or_def refusing_def failed_def
        fresh_def console_error_def showToast_def)
  have ex: "exchanges ?w' = exchanges (fresh ()) @ [(?q, ?res)]"
    by (simp add: fresh_def)
  have err: "truthy (r_error ?res)"
    by simp
  from create_backend_error [OF h1 run ex err] h1 run show ?thesis
    by simp
qed

section \<open>Lists\<close>








section \<open>Lists by owner\<close>



section \<open>The stub backend\<close>

lemma stub_insert_row:
  "stub_insert d t (Obj fs) [Select c, Single] =
     (ok (Obj ((''id'', Num (Fin (int (next_id d)))) # fs)),
      d\<lparr>stored := stored d @ [(t, Obj ((''id'', Num (Fin (int (next_id d)))) # fs))],
        next_id := Suc (next_id d)\<rparr>)"
  by (simp add: stub_insert_def Let_def)

lemma table_stored_append:
  "table (d\<lparr>stored := stored d @ [(t, r)], next_id := n\<rparr>) t' =
     table d t' @ (if t = t' then [r] else [])"
  by (simp add: table_def)

lemma set_order_rows: "set (order_rows k asc rs) = set rs"
  by (simp add: order_rows_def)

lemma fresh_id_unused:
  assumes "stub_inv d"
  shows "filter (\<lambda>r. js_prop r ''id'' = Num (Fin (int (next_id d)))) (table d t) = []"
proof -
  have "js_prop r ''id'' \<noteq> Num (Fin (int (next_id d)))" if "r \<in> set (table d t)" for r
  proof -
    from that obtain t' where "(t', r) \<in> set (stored d)"
      by (auto simp: table_def)
    with assms show ?thesis
      by (auto simp: stub_inv_def list_all_iff split: jsval.splits jsnum.splits)
  qed
  then show ?thesis
    by (simp add: filter_empty_conv)
qed

lemma stub_inv_empty_db: "stub_inv empty_db"
  by (simp add: stub_inv_def empty_db_def)

lemma stub_inv_insert:
  assumes "stub_inv d"
  shows "stub_inv (snd (stub_insert d t p q))"
proof (cases "\<exists>fs. p = Obj fs \<and> returning_single q")
  case True
  then obtain fs where p: "p = Obj fs" and q: "returning_single q" by blast
  from assms show ?thesis
    by (auto simp: p q stub_insert_def Let_def stub_inv_def list_all_iff
        split: jsval.splits jsnum.splits)
next
  case False
  then have "snd (stub_insert d t p q) = d"
    by (auto simp: stub_insert_def split: jsval.splits)
  with assms show ?thesis by simp
qed

text \<open>The invariant holds of the empty stub and after every request.\<close>

lemma stub_inv_step: "stub_inv d \<Longrightarrow> stub_inv (snd (stub d q))"
  by (cases "(d, q)" rule: stub.cases) (simp_all add: stub_inv_insert)

lemma single_row_singleton: "single_row [r] = ok r"
  by (simp add: single_row_def)

text \<open>After an insert, a lookup by the identity handed out finds the row.\<close>

lemma stub_lookup_inserted:
  assumes "stub_inv d"
  shows "fst (stub (snd (stub d [From t, Insert (Obj fs), Select c, Single]))
                [From t, Select c', Eq ''id'' (Num (Fin (int (next_id d)))), Single]) =
           ok (Obj ((''id'', Num (Fin (int (next_id d)))) # fs))"
  by (simp add: stub_insert_row table_stored_append fresh_id_unused [OF assms]
      single_row_singleton)

text \<open>After an insert, a filtered list on a column of the row contains the row.\<close>

lemma stub_list_inserted:
  assumes "k \<noteq> ''id''"
  shows "\<exists>rows.
           fst (stub (snd (stub d [From t, Insert (Obj fs), Select c, Single]))
                  [From t, Select c', Eq k (js_prop (Obj fs) k), Order k' asc]) = ok (Arr rows)
         \<and> Obj ((''id'', Num (Fin (int (next_id d)))) # fs) \<in> set rows"
proof -
  let ?row = "Obj ((''id'', Num (Fin (int (next_id d)))) # fs)"
  let ?rows = "order_rows k' asc
                 (filter (\<lambda>r. js_prop r k = js_prop (Obj fs) k) (table d t @ [?row]))"
  have key: "js_prop ?row k = js_prop (Obj fs) k"
    using assms by simp
  have "fst (stub (snd (stub d [From t, Insert (Obj fs), Select c, Single]))
               [From t, Select c', Eq k (js_prop (Obj fs) k), Order k' asc]) = ok (Arr ?rows)"
    by (simp add: stub_insert_row table_stored_append del: js_prop.simps)
  moreover have "?row \<in> set ?rows"
    using key by (simp add: set_order_rows del: js_prop.simps)
  ultimately show ?thesis by blast
qed

section \<open>Round trip\<close>

lemma patients_create_stub:
  assumes "patients_create stub user data w = (Inr row, w1)" and "row \<noteq> Null"
  shows "\<exists>fs. row = Obj ((''id'', Num (Fin (int (next_id (db w))))) # fs)
            \<and> db w1 = snd (stub (db w) [From ''patients'', Insert (Obj fs), Select ''*'', Single])"
proof (cases "truthy user \<and> \<not> nullish data")
  case True
  then have u: "truthy user" and d: "\<not> nullish data" by simp_all
  from assms show ?thesis
    by (auto simp: patients_create_authenticated [OF u d] Let_def stub_insert_row ok_def
        showToast_def)
next
  case False
  with assms show ?thesis
    by (auto simp: patients_create_def patients_payload_throws split: if_splits)
qed

lemma wounds_create_stub:
  assumes "wounds_create stub patientId data w = (Inr row, w1)" and "row \<noteq> Null"
  shows "\<exists>fs. row = Obj ((''id'', Num (Fin (int (next_id (db w))))) # fs)
            \<and> js_prop (Obj fs) ''patient_id'' = patientId
            \<and> db w1 = snd (stub (db w) [From ''wounds'', Insert (Obj fs), Select ''*'', Single])"
proof (cases "nullish data")
  case False
  from assms show ?thesis
    by (auto simp: wounds_create_object [OF False] Let_def stub_insert_row ok_def
        showToast_def)
next
  case True
  with assms show ?thesis
    by (simp add: wounds_create_def wounds_payload_throws)
qed

lemma treatments_create_stub:
  assumes "treatments_create stub woundId data w = (Inr row, w1)" and "row \<noteq> Null"
  shows "\<exists>fs. row = Obj ((''id'', Num (Fin (int (next_id (db w))))) # fs)
            \<and> js_prop (Obj fs) ''wound_id'' = woundId
            \<and> db w1 = snd (stub (db w) [From ''treatments'', Insert (Obj fs), Select ''*'', Single])"
proof (cases "nullish data")
  case False
  from assms show ?thesis
    by (auto simp: treatments_create_object [OF False] Let_def stub_insert_row ok_def
        showToast_def)
next
  case True
  with assms show ?thesis
    by (simp add: treatments_create_def treatments_payload_throws)
qed

lemma getById_ok:
  "fst (sb (db w) [From ''patients'', Select ''*'', Eq ''id'' i, Single]) = ok r \<Longrightarrow>
   fst (patients_getById sb i w) = Inr r"
  "fst (sb (db w) [From ''wounds'', Select ''*'', Eq ''id'' i, Single]) = ok r \<Longrightarrow>
   fst (wounds_getById sb i w) = Inr r"
  by (simp_all add: patients_getById_def wounds_getById_def await_eq ok_def)

lemma listBy_ok:
  "fst (sb (db w) [From ''wounds'', Select ''*'', Eq ''patient_id'' i,
                   Order ''created_at'' False]) = ok (Arr rows) \<Longrightarrow>
   fst (wounds_listByPatient sb i w) = Inr (Arr rows)"
  "fst (sb (db w) [From ''treatments'', Select ''*'', Eq ''wound_id'' i,
                   Order ''created_at'' False]) = ok (Arr rows) \<Longrightarrow>
   fst (treatments_listByWound sb i w) = Inr (Arr rows)"
  by (simp_all add: wounds_listByPatient_def treatments_listByWound_def await_eq ok_def
      js_or_def)

text \<open>
  C8. On the stub backend, in any state it can be in, a record that a create returned
  comes back unchanged: a patient from \<^verbatim>\<open>patients.getById\<close> of its \<open>id\<close>, a wound
  from \<^verbatim>\<open>wounds.getById\<close> of its \<open>id\<close> and among the rows of
  \<^verbatim>\<open>wounds.listByPatient\<close> of its patient, a treatment among the rows of
  \<^verbatim>\<open>treatments.listByWound\<close> of its wound.
\<close>

theorem create_roundtrip:
  assumes "stub_inv (db w)"
  shows "(patients_create stub user data w = (Inr row, w1) \<and> row \<noteq> Null \<longrightarrow>
            fst (patients_getById stub (js_prop row ''id'') w1) = Inr row)
       \<and> (wounds_create stub patientId data w = (Inr row, w1) \<and> row \<noteq> Null \<longrightarrow>
            fst (wounds_getById stub (js_prop row ''id'') w1) = Inr row
          \<and> (\<exists>rows. fst (wounds_listByPatient stub (js_prop row ''patient_id'') w1) =
                       Inr (Arr rows)
                   \<and> row \<in> set rows))
       \<and> (treatments_create stub woundId data w = (Inr row, w1) \<and> row \<noteq> Null \<longrightarrow>
            (\<exists>rows. fst (treatments_listByWound stub (js_prop row ''wound_id'') w1) =
                       Inr (Arr rows)
                   \<and> row \<in> set rows))"
proof (intro conjI impI; elim conjE)
  assume "patients_create stub user data w = (Inr row, w1)" and "row \<noteq> Null"
  from patients_create_stub [OF this] obtain fs where
    row: "row = Obj ((''id'', Num (Fin (int (next_id (db w))))) # fs)"
    and db: "db w1 = snd (stub (db w) [From ''patients'', Insert (Obj fs), Select ''*'', Single])"
    by blast
  have "fst (stub (db w1) [From ''patients'', Select ''*'', Eq ''id'' (js_prop row ''id''),
                           Single]) = ok row"
    using stub_lookup_inserted [OF assms, of "''patients''" fs "''*''" "''*''"]
    by (simp add: row db)
  then show "fst (patients_getById stub (js_prop row ''id'') w1) = Inr row"
    by (rule getById_ok)
next
  assume "wounds_create stub patientId data w = (Inr row, w1)" and "row \<noteq> Null"
  from wounds_create_stub [OF this] obtain fs where
    row: "row = Obj ((''id'', Num (Fin (int (next_id (db w))))) # fs)"
    and db: "db w1 = snd (stub (db w) [From ''wounds'', Insert (Obj fs), Select ''*'', Single])"
    by blast
  have "fst (stub (db w1) [From ''wounds'', Select ''*'', Eq ''id'' (js_prop row ''id''),
                           Single]) = ok row"
    using stub_lookup_inserted [OF assms, of "''wounds''" fs "''*''" "''*''"]
    by (simp add: row db)
  then show "fst (wounds_getById stub (js_prop row ''id'') w1) = Inr row"
    by (rule getById_ok)
  have key: "js_prop row ''patient_id'' = js_prop (Obj fs) ''patient_id''"
    by (simp add: row)
  from stub_list_inserted [of "''patient_id''" "db w" "''wounds''" fs "''*''" "''*''"
      "''created_at''" False]
  obtain rows where
    "fst (stub (db w1) [From ''wounds'', Select ''*'',
                        Eq ''patient_id'' (js_prop row ''patient_id''),
                        Order ''created_at'' False]) = ok (Arr rows)"
    and "row \<in> set rows"
    unfolding key row db by auto
  then show "\<exists>rows. fst (wounds_listByPatient stub (js_prop row ''patient_id'') w1) =
                       Inr (Arr rows) \<and> row \<in> set rows"
    using listBy_ok(1) by blast
next
  assume "treatments_create stub woundId data w = (Inr row, w1)" and "row \<noteq> Null"
  from treatments_create_stub [OF this] obtain fs where
    row: "row = Obj ((''id'', Num (Fin (int (next_id (db w))))) # fs)"
    and db: "db w1 = snd (stub (db w) [From ''treatments'', Insert (Obj fs), Select ''*'', Single])"
    by blast
  have key: "js_prop row ''wound_id'' = js_prop (Obj fs) ''wound_id''"
    by (simp add: row)
  from stub_list_inserted [of "''wound_id''" "db w" "''treatments''" fs "''*''" "''*''"
      "''created_at''" False]
  obtain rows where
    "fst (stub (db w1) [From ''treatments'', Select ''*'',
                        Eq ''wound_id'' (js_prop row ''wound_id''),
                        Order ''created_at'' False]) = ok (Arr rows)"
    and "row \<in> set rows"
    unfolding key row db by auto
  then show "\<exists>rows. fst (treatments_listByWound stub (js_prop row ''wound_id'') w1) =
                       Inr (Arr rows) \<and> row \<in> set rows"
    using listBy_ok(2) by blast
qed
theorem create_roundtrip_witness:
  "stub_inv (db (fresh sample_db))
   \<and> fst (patients_create stub (Obj [(''id'', Str ''u1'')])
            (Obj [(''name'', Str ''Ana''), (''age'', Str ''41'')]) (fresh sample_db)) =
       Inr (Obj [(''id'', Num (Fin 5)), (''name'', Str ''Ana''), (''age'', Num (Fin 41)),
                 (''diagnosis'', Str ''''), (''comorbidities'', Str ''''),
                 (''professional_id'', Str ''u1'')])
   \<and> fst (patients_getById stub (Num (Fin 5))
            (snd (patients_create stub (Obj [(''id'', Str ''u1'')])
                    (Obj [(''name'', Str ''Ana''), (''age'', Str ''41'')]) (fresh sample_db)))) =
       Inr (Obj [(''id'', Num (Fin 5)), (''name'', Str ''Ana''), (''age'', Num (Fin 41)),
                 (''diagnosis'', Str ''''), (''comorbidities'', Str ''''),
                 (''professional_id'', Str ''u1'')])
   \<and> fst (wounds_create stub (Str ''p1'') (Obj [(''type'', Str ''burn'')]) (fresh sample_db)) =
       Inr (Obj [(''id'', Num (Fin 5)), (''patient_id'', Str ''p1''), (''type'', Str ''burn''),
                 (''location'', Str ''''), (''dimensions'', Str ''''),
                 (''status'', Str ''active'')])
   \<and> fst (wounds_getById stub (Num (Fin 5))
            (snd (wounds_create stub (Str ''p1'') (Obj [(''type'', Str ''burn'')])
                    (fresh sample_db)))) =
       Inr (Obj [(''id'', Num (Fin 5)), (''patient_id'', Str ''p1''), (''type'', Str ''burn''),
                 (''location'', Str ''''), (''dimensions'', Str ''''),
                 (''status'', Str ''active'')])
   \<and> fst (wounds_listByPatient stub (Str ''p1'')
            (snd (wounds_create stub (Str ''p1'') (Obj [(''type'', Str ''burn'')])
                    (fresh sample_db)))) =
       Inr (Arr [wound_c, wound_a,
                 Obj [(''id'', Num (Fin 5)), (''patient_id'', Str ''p1''),
                      (''type'', Str ''burn''), (''location'', Str ''''),
                      (''dimensions'', Str ''''), (''status'', Str ''active'')]])
   \<and> fst (treatments_create stub (Num (Fin 0)) (Obj [(''technique'', Str ''cleaning'')])
            ((fresh sample_db)\<lparr>clock := 1704900000000\<rparr>)) =
       Inr (Obj [(''id'', Num (Fin 5)), (''wound_id'', Num (Fin 0)),
                 (''technique'', Str ''cleaning''), (''supplies'', Str ''''),
                 (''notes'', Str ''''), (''created_at'', Str ''2024-01-10T15:20:00.000Z'')])
   \<and> fst (treatments_listByWound stub (Num (Fin 0))
            (snd (treatments_create stub (Num (Fin 0)) (Obj [(''technique'', Str ''cleaning'')])
                    ((fresh sample_db)\<lparr>clock := 1704900000000\<rparr>)))) =
       Inr (Arr [Obj [(''id'', Num (Fin 5)), (''wound_id'', Num (Fin 0)),
                      (''technique'', Str ''cleaning''), (''supplies'', Str ''''),
                      (''notes'', Str ''''),
                      (''created_at'', Str ''2024-01-10T15:20:00.000Z'')],
                 treatment_b, treatment_a])"
proof -
  let ?w = "fresh sample_db"
  let ?wt = "(fresh sample_db)\<lparr>clock := 1704900000000\<rparr>"
  let ?u = "Obj [(''id'', Str ''u1'')]"
  let ?pd = "Obj [(''name'', Str ''Ana''), (''age'', Str ''41'')]"
  let ?p = "Obj [(''id'', Num (Fin 5)), (''name'', Str ''Ana''), (''age'', Num (Fin 41)),
                 (''diagnosis'', Str ''''), (''comorbidities'', Str ''''),
                 (''professional_id'', Str ''u1'')]"
  let ?wd = "Obj [(''type'', Str ''burn'')]"
  let ?wr = "Obj [(''id'', Num (Fin 5)), (''patient_id'', Str ''p1''), (''type'', Str ''burn''),
                  (''location'', Str ''''), (''dimensions'', Str ''''),
                  (''status'', Str ''active'')]"
  let ?td = "Obj [(''technique'', Str ''cleaning'')]"
  let ?tr = "Obj [(''id'', Num (Fin 5)), (''wound_id'', Num (Fin 0)),
                  (''technique'', Str ''cleaning''), (''supplies'', Str ''''),
                  (''notes'', Str ''''), (''created_at'', Str ''2024-01-10T15:20:00.000Z'')]"
  have inv: "stub_inv (db ?w)"
    by code_simp
  have p: "fst (patients_create stub ?u ?pd ?w) = Inr ?p"
    by code_simp
  have wr: "fst (wounds_create stub (Str ''p1'') ?wd ?w) = Inr ?wr"
    by code_simp
  have tr: "fst (treatments_create stub (Num (Fin 0)) ?td ?wt) = Inr ?tr"
    by code_simp
  have p_run: "patients_create stub ?u ?pd ?w = (Inr ?p, snd (patients_create stub ?u ?pd ?w))
      \<and> ?p \<noteq> Null"
    using p by (simp add: prod_eq_iff)
  have wr_run: "wounds_create stub (Str ''p1'') ?wd ?w =
        (Inr ?wr, snd (wounds_create stub (Str ''p1'') ?wd ?w))
      \<and> ?wr \<noteq> Null"
    using wr by (simp add: prod_eq_iff)
  have p_back: "fst (patients_getById stub (Num (Fin 5)) (snd (patients_create stub ?u ?pd ?w))) =
      Inr ?p"
    using create_roundtrip [OF inv, THEN conjunct1, THEN mp, OF p_run] by simp
  have wr_back: "fst (wounds_getById stub (Num (Fin 5))
        (snd (wounds_create stub (Str ''p1'') ?wd ?w))) = Inr ?wr"
    using create_roundtrip [OF inv, THEN conjunct2, THEN conjunct1, THEN mp, OF wr_run,
        THEN conjunct1]
    by simp
  have wr_list: "fst (wounds_listByPatient stub (Str ''p1'')
        (snd (wounds_create stub (Str ''p1'') ?wd ?w))) = Inr (Arr [wound_c, wound_a, ?wr])"
    by code_simp
  have tr_list: "fst (treatments_listByWound stub (Num (Fin 0))
        (snd (treatments_create stub (Num (Fin 0)) ?td ?wt))) =
      Inr (Arr [?tr, treatment_b, treatment_a])"
    by code_simp
  show ?thesis
    by (intro conjI inv p p_back wr wr_back wr_list tr tr_list)
qed

end
